theory Spec2Isabelle
  imports Main "HOL-Library.Char_ord" "HOL-Library.List_Lexorder" "HOL-Library.Monad_Syntax" "HOL-Library.Sublist"
begin

section \<open>Strings\<close>

text \<open>
  A Go string is a sequence of bytes; it is modelled as \<^typ>\<open>string\<close>, one \<^typ>\<open>char\<close> per byte.
  \<^verbatim>\<open>strings.ToLower\<close> and \<^verbatim>\<open>strings.ToUpper\<close> are modelled on the ASCII letters, which
  is what Go computes for every ASCII string. Bytes from 0x80 on are left as they are: the
  Unicode case tables Go applies to them are not part of this development.
\<close>

definition upper_letters :: string where
  "upper_letters = ''ABCDEFGHIJKLMNOPQRSTUVWXYZ''"

definition lower_letters :: string where
  "lower_letters = ''abcdefghijklmnopqrstuvwxyz''"

definition lowerByte :: "char \<Rightarrow> char" where
  \<comment> \<open>\<^verbatim>\<open>if 'A' <= c && c <= 'Z' { c += 'a' - 'A' }\<close>, as a table\<close>
  "lowerByte c = (case map_of (zip upper_letters lower_letters) c of Some d \<Rightarrow> d | None \<Rightarrow> c)"

definition upperByte :: "char \<Rightarrow> char" where
  \<comment> \<open>\<^verbatim>\<open>if 'a' <= c && c <= 'z' { c -= 'a' - 'A' }\<close>, as a table\<close>
  "upperByte c = (case map_of (zip lower_letters upper_letters) c of Some d \<Rightarrow> d | None \<Rightarrow> c)"


definition ToLower :: "string \<Rightarrow> string" where
  "ToLower s = map lowerByte s"

definition ToUpper :: "string \<Rightarrow> string" where
  "ToUpper s = map upperByte s"

text \<open>
  \<^verbatim>\<open>strings.Split(s, "@")\<close> for the one-byte separator the source uses. The result is
  never empty, so the index \<^verbatim>\<open>[0]\<close> the source takes is always in range.
\<close>

fun Split :: "string \<Rightarrow> char \<Rightarrow> string list" where
  "Split [] sep = [[]]"
| "Split (c # cs) sep =
     (if c = sep then [] # Split cs sep
      else (case Split cs sep of [] \<Rightarrow> [[c]] | w # ws \<Rightarrow> (c # w) # ws))"

definition stream_symbol :: "string \<Rightarrow> string" where
  \<comment> \<open>\<^verbatim>\<open>strings.Split(stream, "@")[0]\<close>\<close>
  "stream_symbol stream = hd (Split stream (CHR ''@''))"

text \<open>
  \<^verbatim>\<open>strings.Join\<close>, the reading of "descriptors joined with a separator" that the URL
  builders are compared with.
\<close>

fun Join :: "string list \<Rightarrow> string \<Rightarrow> string" where
  "Join [] sep = []"
| "Join [x] sep = x"
| "Join (x # y # ys) sep = x @ sep @ Join (y # ys) sep"

section \<open>Endpoints\<close>

definition baseWsMainURL :: string where
  "baseWsMainURL = ''wss://fstream.binance.com/ws''"

definition baseWsTestnetURL :: string where
  "baseWsTestnetURL = ''wss://testnet.binance.vision/ws''"

definition baseCombinedMainURL :: string where
  "baseCombinedMainURL = ''wss://fstream.binance.com/stream?streams=''"

definition baseCombinedTestnetURL :: string where
  "baseCombinedTestnetURL = ''wss://testnet.binance.vision/stream?streams=''"

text \<open>
  The process-wide flag \<^verbatim>\<open>UseTestnet\<close> is declared outside the files at hand; every
  function that reads it takes its value as the first argument.
\<close>

definition getWsEndpoint :: "bool \<Rightarrow> string" where
  "getWsEndpoint UseTestnet = (if UseTestnet then baseWsTestnetURL else baseWsMainURL)"

definition getCombinedEndpoint :: "bool \<Rightarrow> string" where
  "getCombinedEndpoint UseTestnet =
     (if UseTestnet then baseCombinedTestnetURL else baseCombinedMainURL)"

section \<open>Subscription URLs\<close>

text \<open>
  Each subscribe function builds its endpoint and then hands a message handler to the
  transport. The two parts are modelled apart: \<open>X_endpoint\<close> is the URL that \<open>X\<close> builds,
  \<open>X_wsHandler\<close> the closure it registers.
\<close>

subsection \<open>Single-symbol endpoints\<close>

definition WsPartialDepthServe_endpoint :: "bool \<Rightarrow> string \<Rightarrow> string \<Rightarrow> string" where
  "WsPartialDepthServe_endpoint UseTestnet symbol levels =
     getWsEndpoint UseTestnet @ ''/'' @ ToLower symbol @ ''@depth'' @ levels"

definition WsPartialDepthServe100Ms_endpoint :: "bool \<Rightarrow> string \<Rightarrow> string \<Rightarrow> string" where
  "WsPartialDepthServe100Ms_endpoint UseTestnet symbol levels =
     getWsEndpoint UseTestnet @ ''/'' @ ToLower symbol @ ''@depth'' @ levels @ ''@100ms''"

definition WsDepthServe_endpoint :: "bool \<Rightarrow> string \<Rightarrow> string" where
  "WsDepthServe_endpoint UseTestnet symbol =
     getWsEndpoint UseTestnet @ ''/'' @ ToLower symbol @ ''@depth''"

definition WsDepthServe100Ms_endpoint :: "bool \<Rightarrow> string \<Rightarrow> string" where
  "WsDepthServe100Ms_endpoint UseTestnet symbol =
     getWsEndpoint UseTestnet @ ''/'' @ ToLower symbol @ ''@depth@100ms''"

definition WsKlineServe_endpoint :: "bool \<Rightarrow> string \<Rightarrow> string \<Rightarrow> string" where
  "WsKlineServe_endpoint UseTestnet symbol interval =
     getWsEndpoint UseTestnet @ ''/'' @ ToLower symbol @ ''@kline_'' @ interval"

definition WsAggTradeServe_endpoint :: "bool \<Rightarrow> string \<Rightarrow> string" where
  "WsAggTradeServe_endpoint UseTestnet symbol =
     getWsEndpoint UseTestnet @ ''/'' @ ToLower symbol @ ''@aggTrade''"

definition WsTradeServe_endpoint :: "bool \<Rightarrow> string \<Rightarrow> string" where
  "WsTradeServe_endpoint UseTestnet symbol =
     getWsEndpoint UseTestnet @ ''/'' @ ToLower symbol @ ''@trade''"

definition WsMarketStatServe_endpoint :: "bool \<Rightarrow> string \<Rightarrow> string" where
  "WsMarketStatServe_endpoint UseTestnet symbol =
     getWsEndpoint UseTestnet @ ''/'' @ ToLower symbol @ ''@ticker''"

definition WsBookTickerServe_endpoint :: "bool \<Rightarrow> string \<Rightarrow> string" where
  "WsBookTickerServe_endpoint UseTestnet symbol =
     getWsEndpoint UseTestnet @ ''/'' @ ToLower symbol @ ''@bookTicker''"

subsection \<open>Combined-stream endpoints\<close>

text \<open>
  The source appends one descriptor and a \<^verbatim>\<open>"/"\<close> per symbol to the base and then cuts the
  last byte with \<^verbatim>\<open>endpoint[:len(endpoint)-1]\<close>. The base is not empty, so the slice
  expression is always in range; it is \<^const>\<open>butlast\<close>.
\<close>

definition combined_endpoint :: "string \<Rightarrow> string list \<Rightarrow> string" where
  \<comment> \<open>the loop \<^verbatim>\<open>endpoint += descriptor + "/"\<close> and the cut that follows it\<close>
  "combined_endpoint base descriptors =
     butlast (foldl (\<lambda>endpoint d. endpoint @ d @ ''/'') base descriptors)"

text \<open>
  A Go map is ranged over in an order the runtime picks. The map arguments of the
  builders are given as the list of their entries in the order of that iteration.
\<close>

definition WsCombinedPartialDepthServe_endpoint ::
    "bool \<Rightarrow> (string \<times> string) list \<Rightarrow> string" where
  "WsCombinedPartialDepthServe_endpoint UseTestnet symbolLevels =
     combined_endpoint (getCombinedEndpoint UseTestnet)
       (map (\<lambda>(s, l). ToLower s @ ''@depth'' @ l) symbolLevels)"

definition WsCombinedDepthServe_endpoint :: "bool \<Rightarrow> string list \<Rightarrow> string" where
  "WsCombinedDepthServe_endpoint UseTestnet symbols =
     combined_endpoint (getCombinedEndpoint UseTestnet)
       (map (\<lambda>s. ToLower s @ ''@depth'') symbols)"

definition WsCombinedDepthServe100Ms_endpoint :: "bool \<Rightarrow> string list \<Rightarrow> string" where
  "WsCombinedDepthServe100Ms_endpoint UseTestnet symbols =
     combined_endpoint (getCombinedEndpoint UseTestnet)
       (map (\<lambda>s. ToLower s @ ''@depth@100ms'') symbols)"

definition WsCombinedKlineServe_endpoint ::
    "bool \<Rightarrow> (string \<times> string) list \<Rightarrow> string" where
  "WsCombinedKlineServe_endpoint UseTestnet symbolIntervalPair =
     combined_endpoint (getCombinedEndpoint UseTestnet)
       (map (\<lambda>(symbol, interval). ToLower symbol @ ''@kline_'' @ interval) symbolIntervalPair)"

definition WsCombinedAggTradeServe_endpoint :: "bool \<Rightarrow> string list \<Rightarrow> string" where
  "WsCombinedAggTradeServe_endpoint UseTestnet symbols =
     combined_endpoint (getCombinedEndpoint UseTestnet)
       (map (\<lambda>s. ToLower s @ ''@aggTrade'') symbols)"

definition WsCombinedTradeServe_endpoint :: "bool \<Rightarrow> string list \<Rightarrow> string" where
  "WsCombinedTradeServe_endpoint UseTestnet symbols =
     combined_endpoint (getCombinedEndpoint UseTestnet)
       (map (\<lambda>s. ToLower s @ ''@trade'') symbols)"

definition WsCombinedMarketStatServe_endpoint :: "bool \<Rightarrow> string list \<Rightarrow> string" where
  "WsCombinedMarketStatServe_endpoint UseTestnet symbols =
     combined_endpoint (getCombinedEndpoint UseTestnet)
       (map (\<lambda>s. ToLower s @ ''@ticker'') symbols)"

text \<open>
  \<^verbatim>\<open>WsCombinedBookTickerServe\<close> starts from the constant \<^verbatim>\<open>baseCombinedMainURL\<close>; it does
  not call \<^verbatim>\<open>getCombinedEndpoint\<close>. The flag is an argument here all the same, since it is
  process-wide state at the time of the call.
\<close>

definition WsCombinedBookTickerServe_endpoint :: "bool \<Rightarrow> string list \<Rightarrow> string" where
  "WsCombinedBookTickerServe_endpoint UseTestnet symbols =
     combined_endpoint baseCombinedMainURL
       (map (\<lambda>s. ToLower s @ ''@bookTicker'') symbols)"

section \<open>JSON documents\<close>

text \<open>
  The JSON text of a message is read by library code (\<^verbatim>\<open>encoding/json\<close> underneath
  \<^verbatim>\<open>simplejson\<close>, and \<^verbatim>\<open>json.Unmarshal\<close>). What the handlers of this package work on is
  the document that comes out. A document keeps the members of an object in the order of
  the text, repeated keys included. A number keeps what \<^verbatim>\<open>json.Number\<close> is asked for here:
  \<open>JInt n\<close> is a literal of digits with an optional minus sign, of value \<open>n\<close>;
  \<open>JReal lit\<close> is a literal with a fraction or an exponent.
\<close>

datatype json =
    JNull
  | JBool bool
  | JInt int
  | JReal string
  | JString string
  | JArray "json list"
  | JObject "(string \<times> json) list"

datatype error =
    SyntaxError
  | UnmarshalTypeError string
  | RequestError string

text \<open>
  The reader itself is an argument of every handler: \<open>newJSON\<close> for the handlers that call
  \<^verbatim>\<open>newJSON(message)\<close>, \<open>scan\<close> for those that call \<^verbatim>\<open>json.Unmarshal(message, ...)\<close>. It
  returns the document or the error of the library.
\<close>

type_synonym reader = "string \<Rightarrow> error + json"

text \<open>What a handler does with one message.\<close>

datatype 'e outcome =
    Handler 'e       \<comment> \<open>\<^verbatim>\<open>handler(event)\<close> was called\<close>
  | ErrHandler error \<comment> \<open>\<^verbatim>\<open>errHandler(err)\<close> was called\<close>
  | Panic            \<comment> \<open>a run-time panic left the closure before either call\<close>

subsection \<open>int64\<close>

definition int64_min :: int where
  "int64_min = - 9223372036854775808"

definition int64_max :: int where
  "int64_max = 9223372036854775807"

definition in_int64 :: "int \<Rightarrow> bool" where
  "in_int64 n = (int64_min \<le> n \<and> n \<le> int64_max)"

text \<open>
  \<^verbatim>\<open>json.Number.Int64()\<close> is \<^verbatim>\<open>strconv.ParseInt(s, 10, 64)\<close>: the value and whether
  the error is nil. Out of range it returns the nearest bound with an error; on a literal
  that is not an integer it returns 0 with an error.
\<close>

fun Number_Int64 :: "json \<Rightarrow> int \<times> bool" where
  "Number_Int64 (JInt n) =
     (if n < int64_min then (int64_min, False)
      else if int64_max < n then (int64_max, False)
      else (n, True))"
| "Number_Int64 _ = (0, False)"

subsection \<open>The untyped accessors (simplejson)\<close>

text \<open>
  \<^verbatim>\<open>newJSON\<close> wraps the document in a \<^verbatim>\<open>simplejson.Json\<close>. The methods the source calls on
  it are library code; they are written down here as the library has them. \<^verbatim>\<open>Get\<close> and
  \<^verbatim>\<open>GetIndex\<close> always return a wrapper: that of the member or element asked for, or that
  of nil when the value is no object or array or holds no such member or element. The
  \<^verbatim>\<open>Must\<close> methods return the value when it has the type asked for and the zero value of
  that type otherwise. Numbers are read as \<^verbatim>\<open>json.Number\<close>.
\<close>

type_synonym gomap = "(string \<times> json) list option"

definition map_index :: "gomap \<Rightarrow> string \<Rightarrow> json option" where
  \<comment> \<open>\<^verbatim>\<open>v, ok := m[key]\<close>; a nil map (\<^const>\<open>None\<close>) has no keys. The decoder stores the
      members of an object in turn, so of a repeated key the last member stays.\<close>
  "map_index m key = (case m of None \<Rightarrow> None | Some kvs \<Rightarrow> map_of (rev kvs) key)"

definition map_get :: "gomap \<Rightarrow> string \<Rightarrow> json" where
  \<comment> \<open>\<^verbatim>\<open>m[key]\<close>: the nil interface for a key that is not there\<close>
  "map_get m key = (case map_index m key of Some v \<Rightarrow> v | None \<Rightarrow> JNull)"

definition Get :: "json \<Rightarrow> string \<Rightarrow> json" where
  "Get j key =
     (case j of
        JObject m \<Rightarrow> (case map_index (Some m) key of Some val \<Rightarrow> val | None \<Rightarrow> JNull)
      | _ \<Rightarrow> JNull)"

definition GetIndex :: "json \<Rightarrow> nat \<Rightarrow> json" where
  "GetIndex j index =
     (case j of
        JArray a \<Rightarrow> (if length a > index then a ! index else JNull)
      | _ \<Rightarrow> JNull)"

definition MustArray :: "json \<Rightarrow> json list" where
  "MustArray j = (case j of JArray a \<Rightarrow> a | _ \<Rightarrow> [])"

definition MustMap :: "json \<Rightarrow> gomap" where
  "MustMap j = (case j of JObject m \<Rightarrow> Some m | _ \<Rightarrow> None)"

definition MustString :: "json \<Rightarrow> string" where
  "MustString j = (case j of JString s \<Rightarrow> s | _ \<Rightarrow> [])"

definition MustInt64 :: "json \<Rightarrow> int" where
  "MustInt64 j =
     (case j of
        JInt n \<Rightarrow> (case Number_Int64 (JInt n) of (i, ok) \<Rightarrow> if ok then i else 0)
      | JReal lit \<Rightarrow> (case Number_Int64 (JReal lit) of (i, ok) \<Rightarrow> if ok then i else 0)
      | _ \<Rightarrow> 0)"

subsection \<open>Type assertions\<close>

text \<open>
  \<^verbatim>\<open>x.(T)\<close> without the second result panics when \<open>x\<close> does not hold a \<open>T\<close>, and so does
  an index out of range. \<^const>\<open>None\<close> is the panic.
\<close>

definition assert_string :: "json \<Rightarrow> string option" where
  "assert_string v = (case v of JString s \<Rightarrow> Some s | _ \<Rightarrow> None)"

definition assert_Number :: "json \<Rightarrow> json option" where
  "assert_Number v = (case v of JInt n \<Rightarrow> Some v | JReal lit \<Rightarrow> Some v | _ \<Rightarrow> None)"

definition assert_slice :: "json \<Rightarrow> json list option" where
  "assert_slice v = (case v of JArray a \<Rightarrow> Some a | _ \<Rightarrow> None)"

definition slice_index :: "json list \<Rightarrow> nat \<Rightarrow> json option" where
  "slice_index a i = (if i < length a then Some (a ! i) else None)"

section \<open>Depth events\<close>

text \<open>
  Modelled from the spec: the types \<^verbatim>\<open>Bid\<close> and \<^verbatim>\<open>Ask\<close>, which are declared outside the
  files at hand. A price level is "one order-book level" with a price and a quantity,
  both "exchange-provided decimal strings".
\<close>

record PriceLevel =
  Price :: string
  Quantity :: string

type_synonym Bid = PriceLevel
type_synonym Ask = PriceLevel

record WsPartialDepthEvent =
  Symbol :: string
  LastUpdateID :: int
  Bids :: "Bid list"
  Asks :: "Ask list"

record WsDepthEvent =
  Event :: string
  Time :: int
  Symbol :: string
  LastUpdateID :: int
  FirstUpdateID :: int
  LastUpdateIDInLastStream :: int
  Bids :: "Bid list"
  Asks :: "Ask list"

subsection \<open>Flat mode\<close>

definition must_levels :: "json \<Rightarrow> PriceLevel list" where
  \<comment> \<open>the loop \<^verbatim>\<open>for i := 0; i < len(v.MustArray()); i++\<close> over \<^verbatim>\<open>v.GetIndex(i)\<close>\<close>
  "must_levels v =
     map (\<lambda>i. let item = GetIndex v i
              in \<lparr>Price = MustString (GetIndex item 0),
                  Quantity = MustString (GetIndex item 1)\<rparr>)
         [0 ..< length (MustArray v)]"


text \<open>
  \<^verbatim>\<open>j.Get("pu")\<close> is a pointer to a fresh wrapper whatever the document holds, so the test
  \<^verbatim>\<open>j.Get("pu") != nil\<close> of the source is always true and the assignment always runs.
\<close>

definition wsDepthServe_wsHandler :: "reader \<Rightarrow> string \<Rightarrow> WsDepthEvent outcome" where
  "wsDepthServe_wsHandler newJSON message =
     (case newJSON message of
        Inl err \<Rightarrow> ErrHandler err
      | Inr j \<Rightarrow>
          Handler \<lparr>WsDepthEvent.Event = MustString (Get j ''e''),
                   Time = MustInt64 (Get j ''E''),
                   Symbol = MustString (Get j ''s''),
                   LastUpdateID = MustInt64 (Get j ''u''),
                   FirstUpdateID = MustInt64 (Get j ''U''),
                   LastUpdateIDInLastStream = MustInt64 (Get j ''pu''),
                   Bids = must_levels (Get j ''b''),
                   Asks = must_levels (Get j ''a'')\<rparr>)"

subsection \<open>Combined mode\<close>

fun assert_levels :: "json list \<Rightarrow> PriceLevel list option" where
  \<comment> \<open>the loop over \<^verbatim>\<open>data[k].([]interface{})[i].([]interface{})\<close>\<close>
  "assert_levels [] = Some []"
| "assert_levels (x # xs) =
     do {
       item \<leftarrow> assert_slice x;
       p \<leftarrow> Option.bind (slice_index item 0) assert_string;
       q \<leftarrow> Option.bind (slice_index item 1) assert_string;
       rest \<leftarrow> assert_levels xs;
       Some (\<lparr>Price = p, Quantity = q\<rparr> # rest)
     }"

definition outcome_of :: "'e option \<Rightarrow> 'e outcome" where
  "outcome_of r = (case r of None \<Rightarrow> Panic | Some event \<Rightarrow> Handler event)"

definition WsCombinedPartialDepthServe_wsHandler ::
    "reader \<Rightarrow> string \<Rightarrow> WsPartialDepthEvent outcome" where
  "WsCombinedPartialDepthServe_wsHandler newJSON message =
     (case newJSON message of
        Inl err \<Rightarrow> ErrHandler err
      | Inr j \<Rightarrow>
          (let stream = MustString (Get j ''stream'');
               symbol = stream_symbol stream;
               data = MustMap (Get j ''data'')
           in outcome_of (do {
                lastUpdateId \<leftarrow> assert_Number (map_get data ''lastUpdateId'');
                bids \<leftarrow> Option.bind (assert_slice (map_get data ''bids'')) assert_levels;
                asks \<leftarrow> Option.bind (assert_slice (map_get data ''asks'')) assert_levels;
                Some \<lparr>WsPartialDepthEvent.Symbol = ToUpper symbol,
                      LastUpdateID = fst (Number_Int64 lastUpdateId),
                      Bids = bids,
                      Asks = asks\<rparr>
              })))"

definition wsCombinedDepthServe_wsHandler :: "reader \<Rightarrow> string \<Rightarrow> WsDepthEvent outcome" where
  "wsCombinedDepthServe_wsHandler newJSON message =
     (case newJSON message of
        Inl err \<Rightarrow> ErrHandler err
      | Inr j \<Rightarrow>
          (let stream = MustString (Get j ''stream'');
               symbol = stream_symbol stream;
               data = MustMap (Get j ''data'')
           in outcome_of (do {
                e \<leftarrow> assert_string (map_get data ''e'');
                E \<leftarrow> assert_Number (map_get data ''E'');
                u \<leftarrow> assert_Number (map_get data ''u'');
                U \<leftarrow> assert_Number (map_get data ''U'');
                pu \<leftarrow> (case map_index data ''pu'' of
                         Some v \<Rightarrow> map_option (\<lambda>n. fst (Number_Int64 n)) (assert_Number v)
                       | None \<Rightarrow> Some 0);
                bids \<leftarrow> Option.bind (assert_slice (map_get data ''b'')) assert_levels;
                asks \<leftarrow> Option.bind (assert_slice (map_get data ''a'')) assert_levels;
                Some \<lparr>WsDepthEvent.Event = e,
                      Time = fst (Number_Int64 E),
                      Symbol = ToUpper symbol,
                      LastUpdateID = fst (Number_Int64 u),
                      FirstUpdateID = fst (Number_Int64 U),
                      LastUpdateIDInLastStream = pu,
                      Bids = bids,
                      Asks = asks\<rparr>
              })))"

section \<open>Typed decoding\<close>

text \<open>
  \<^verbatim>\<open>json.Unmarshal(message, event)\<close> is library code driven by the struct tags of the
  event types, which are in the source. It is modelled by the contract of
  \<^verbatim>\<open>encoding/json\<close>: the text is checked first; \<^verbatim>\<open>null\<close> leaves the destination as it
  was; the members of an object are stored in the order of the text, each into the field
  whose tag is the key, or else into the first field whose tag equals the key without
  regard to the case of ASCII letters; a member that matches no field is skipped; a
  value of the wrong kind for its field, or a number that is not an integer in the range
  of the field, makes the call return an error.
\<close>

definition equalFold :: "string \<Rightarrow> string \<Rightarrow> bool" where
  "equalFold key tag = (ToUpper key = ToUpper tag)"

definition find_field :: "string list \<Rightarrow> string \<Rightarrow> string option" where
  "find_field tags key =
     (if key \<in> set tags then Some key else find (equalFold key) tags)"

definition store_string :: "string \<Rightarrow> json \<Rightarrow> string \<Rightarrow> error + string" where
  "store_string tag v cur =
     (case v of JNull \<Rightarrow> Inr cur | JString x \<Rightarrow> Inr x | _ \<Rightarrow> Inl (UnmarshalTypeError tag))"

definition store_int64 :: "string \<Rightarrow> json \<Rightarrow> int \<Rightarrow> error + int" where
  "store_int64 tag v cur =
     (case v of
        JNull \<Rightarrow> Inr cur
      | JInt n \<Rightarrow> (if in_int64 n then Inr n else Inl (UnmarshalTypeError tag))
      | _ \<Rightarrow> Inl (UnmarshalTypeError tag))"

definition store_bool :: "string \<Rightarrow> json \<Rightarrow> bool \<Rightarrow> error + bool" where
  "store_bool tag v cur =
     (case v of JNull \<Rightarrow> Inr cur | JBool b \<Rightarrow> Inr b | _ \<Rightarrow> Inl (UnmarshalTypeError tag))"

definition assign :: "error + 'v \<Rightarrow> ('v \<Rightarrow> 'a) \<Rightarrow> error + 'a" where
  "assign r upd = (case r of Inl e \<Rightarrow> Inl e | Inr x \<Rightarrow> Inr (upd x))"

fun unmarshal_fields ::
    "string list \<Rightarrow> (string \<Rightarrow> json \<Rightarrow> 'a \<Rightarrow> error + 'a) \<Rightarrow> (string \<times> json) list \<Rightarrow> 'a \<Rightarrow> error + 'a"
where
  "unmarshal_fields tags set_field [] ev = Inr ev"
| "unmarshal_fields tags set_field ((key, v) # members) ev =
     (case find_field tags key of
        None \<Rightarrow> unmarshal_fields tags set_field members ev
      | Some tag \<Rightarrow>
          (case set_field tag v ev of
             Inl e \<Rightarrow> Inl e
           | Inr ev' \<Rightarrow> unmarshal_fields tags set_field members ev'))"

definition unmarshal_struct ::
    "string list \<Rightarrow> (string \<Rightarrow> json \<Rightarrow> 'a \<Rightarrow> error + 'a) \<Rightarrow> json \<Rightarrow> 'a \<Rightarrow> error + 'a"
where
  "unmarshal_struct tags set_field v ev =
     (case v of
        JNull \<Rightarrow> Inr ev
      | JObject members \<Rightarrow> unmarshal_fields tags set_field members ev
      | _ \<Rightarrow> Inl (UnmarshalTypeError []))"

definition json_Unmarshal ::
    "reader \<Rightarrow> string list \<Rightarrow> (string \<Rightarrow> json \<Rightarrow> 'a \<Rightarrow> error + 'a) \<Rightarrow> string \<Rightarrow> 'a \<Rightarrow> error + 'a"
where
  "json_Unmarshal scan tags set_field message ev =
     (case scan message of
        Inl err \<Rightarrow> Inl err
      | Inr j \<Rightarrow> unmarshal_struct tags set_field j ev)"




definition to_outcome :: "error + 'e \<Rightarrow> 'e outcome" where
  "to_outcome r = (case r of Inl err \<Rightarrow> ErrHandler err | Inr event \<Rightarrow> Handler event)"

section \<open>Trade events\<close>

record WsTradeEvent =
  Event :: string
  Time :: int
  Symbol :: string
  TradeID :: int
  Price :: string
  Quantity :: string
  BuyerOrderID :: int
  SellerOrderID :: int
  TradeTime :: int
  IsBuyerMaker :: bool
  Placeholder :: bool

definition WsTradeEvent_zero :: WsTradeEvent where
  "WsTradeEvent_zero =
     \<lparr>WsTradeEvent.Event = [],
      Time = 0,
      Symbol = [],
      TradeID = 0,
      Price = [],
      Quantity = [],
      BuyerOrderID = 0,
      SellerOrderID = 0,
      TradeTime = 0,
      IsBuyerMaker = False,
      Placeholder = False\<rparr>"

definition WsTradeEvent_tags :: "string list" where
  "WsTradeEvent_tags =
     [''e'', ''E'', ''s'', ''t'', ''p'', ''q'', ''b'', ''a'', ''T'', ''m'', ''M'']"

definition set_WsTradeEvent ::
    "string \<Rightarrow> json \<Rightarrow> WsTradeEvent \<Rightarrow> error + WsTradeEvent" where
  "set_WsTradeEvent tag v ev =
     (if tag = ''e'' then
        assign (store_string tag v (WsTradeEvent.Event ev))
          (\<lambda>x. ev\<lparr>WsTradeEvent.Event := x\<rparr>)
      else if tag = ''E'' then
        assign (store_int64 tag v (WsTradeEvent.Time ev))
          (\<lambda>x. ev\<lparr>WsTradeEvent.Time := x\<rparr>)
      else if tag = ''s'' then
        assign (store_string tag v (WsTradeEvent.Symbol ev))
          (\<lambda>x. ev\<lparr>WsTradeEvent.Symbol := x\<rparr>)
      else if tag = ''t'' then
        assign (store_int64 tag v (WsTradeEvent.TradeID ev))
          (\<lambda>x. ev\<lparr>WsTradeEvent.TradeID := x\<rparr>)
      else if tag = ''p'' then
        assign (store_string tag v (WsTradeEvent.Price ev))
          (\<lambda>x. ev\<lparr>WsTradeEvent.Price := x\<rparr>)
      else if tag = ''q'' then
        assign (store_string tag v (WsTradeEvent.Quantity ev))
          (\<lambda>x. ev\<lparr>WsTradeEvent.Quantity := x\<rparr>)
      else if tag = ''b'' then
        assign (store_int64 tag v (WsTradeEvent.BuyerOrderID ev))
          (\<lambda>x. ev\<lparr>WsTradeEvent.BuyerOrderID := x\<rparr>)
      else if tag = ''a'' then
        assign (store_int64 tag v (WsTradeEvent.SellerOrderID ev))
          (\<lambda>x. ev\<lparr>WsTradeEvent.SellerOrderID := x\<rparr>)
      else if tag = ''T'' then
        assign (store_int64 tag v (WsTradeEvent.TradeTime ev))
          (\<lambda>x. ev\<lparr>WsTradeEvent.TradeTime := x\<rparr>)
      else if tag = ''m'' then
        assign (store_bool tag v (WsTradeEvent.IsBuyerMaker ev))
          (\<lambda>x. ev\<lparr>WsTradeEvent.IsBuyerMaker := x\<rparr>)
      else if tag = ''M'' then
        assign (store_bool tag v (WsTradeEvent.Placeholder ev))
          (\<lambda>x. ev\<lparr>WsTradeEvent.Placeholder := x\<rparr>)
      else Inr ev)"

record WsCombinedTradeEvent =
  Stream :: string
  Data :: WsTradeEvent




definition WsTradeServe_wsHandler :: "reader \<Rightarrow> string \<Rightarrow> WsTradeEvent outcome" where
  "WsTradeServe_wsHandler scan message =
     to_outcome (json_Unmarshal scan WsTradeEvent_tags set_WsTradeEvent message WsTradeEvent_zero)"


section \<open>Aggregate trade events\<close>

record WsAggTradeEvent =
  Event :: string
  Time :: int
  Symbol :: string
  AggTradeID :: int
  Price :: string
  Quantity :: string
  FirstBreakdownTradeID :: int
  LastBreakdownTradeID :: int
  TradeTime :: int
  IsBuyerMaker :: bool
  Placeholder :: bool






section \<open>Kline events\<close>

record WsKline =
  StartTime :: int
  EndTime :: int
  Symbol :: string
  Interval :: string
  FirstTradeID :: int
  LastTradeID :: int
  Open :: string
  Close :: string
  High :: string
  Low :: string
  Volume :: string
  TradeNum :: int
  IsFinal :: bool
  QuoteVolume :: string
  ActiveBuyVolume :: string
  ActiveBuyQuoteVolume :: string




record WsKlineEvent =
  Event :: string
  Time :: int
  Symbol :: string
  Kline :: WsKline






section \<open>Market statistics events\<close>

record WsMarketStatEvent =
  Event :: string
  Time :: int
  Symbol :: string
  PriceChange :: string
  PriceChangePercent :: string
  WeightedAvgPrice :: string
  PrevClosePrice :: string
  LastPrice :: string
  CloseQty :: string
  BidPrice :: string
  BidQty :: string
  AskPrice :: string
  AskQty :: string
  OpenPrice :: string
  HighPrice :: string
  LowPrice :: string
  BaseVolume :: string
  QuoteVolume :: string
  OpenTime :: int
  CloseTime :: int
  FirstID :: int
  LastID :: int
  Count :: int






section \<open>Book ticker events\<close>

record WsBookTickerEvent =
  UpdateID :: int
  Symbol :: string
  BestBidPrice :: string
  BestBidQty :: string
  BestAskPrice :: string
  BestAskQty :: string

definition WsBookTickerEvent_zero :: WsBookTickerEvent where
  "WsBookTickerEvent_zero =
     \<lparr>WsBookTickerEvent.UpdateID = 0,
      Symbol = [],
      BestBidPrice = [],
      BestBidQty = [],
      BestAskPrice = [],
      BestAskQty = []\<rparr>"

definition WsBookTickerEvent_tags :: "string list" where
  "WsBookTickerEvent_tags =
     [''u'', ''s'', ''b'', ''B'', ''a'', ''A'']"

definition set_WsBookTickerEvent ::
    "string \<Rightarrow> json \<Rightarrow> WsBookTickerEvent \<Rightarrow> error + WsBookTickerEvent" where
  "set_WsBookTickerEvent tag v ev =
     (if tag = ''u'' then
        assign (store_int64 tag v (WsBookTickerEvent.UpdateID ev))
          (\<lambda>x. ev\<lparr>WsBookTickerEvent.UpdateID := x\<rparr>)
      else if tag = ''s'' then
        assign (store_string tag v (WsBookTickerEvent.Symbol ev))
          (\<lambda>x. ev\<lparr>WsBookTickerEvent.Symbol := x\<rparr>)
      else if tag = ''b'' then
        assign (store_string tag v (WsBookTickerEvent.BestBidPrice ev))
          (\<lambda>x. ev\<lparr>WsBookTickerEvent.BestBidPrice := x\<rparr>)
      else if tag = ''B'' then
        assign (store_string tag v (WsBookTickerEvent.BestBidQty ev))
          (\<lambda>x. ev\<lparr>WsBookTickerEvent.BestBidQty := x\<rparr>)
      else if tag = ''a'' then
        assign (store_string tag v (WsBookTickerEvent.BestAskPrice ev))
          (\<lambda>x. ev\<lparr>WsBookTickerEvent.BestAskPrice := x\<rparr>)
      else if tag = ''A'' then
        assign (store_string tag v (WsBookTickerEvent.BestAskQty ev))
          (\<lambda>x. ev\<lparr>WsBookTickerEvent.BestAskQty := x\<rparr>)
      else Inr ev)"

text \<open>
  The \<^verbatim>\<open>Data\<close> field of the envelope is a pointer: nil (\<^const>\<open>None\<close>) in the zero value,
  set to nil by \<^verbatim>\<open>null\<close>, and pointing to a decoded struct after an object.
\<close>

record WsCombinedBookTickerEvent =
  Data :: "WsBookTickerEvent option"
  Stream :: string

definition WsCombinedBookTickerEvent_zero :: WsCombinedBookTickerEvent where
  "WsCombinedBookTickerEvent_zero =
     \<lparr>WsCombinedBookTickerEvent.Data = None,
      Stream = []\<rparr>"

definition WsCombinedBookTickerEvent_tags :: "string list" where
  "WsCombinedBookTickerEvent_tags =
     [''data'', ''stream'']"

definition set_WsCombinedBookTickerEvent ::
    "string \<Rightarrow> json \<Rightarrow> WsCombinedBookTickerEvent \<Rightarrow> error + WsCombinedBookTickerEvent" where
  "set_WsCombinedBookTickerEvent tag v ev =
     (if tag = ''data'' then
        (case v of
           JNull \<Rightarrow> Inr (ev\<lparr>WsCombinedBookTickerEvent.Data := None\<rparr>)
         | _ \<Rightarrow>
             assign (unmarshal_struct WsBookTickerEvent_tags set_WsBookTickerEvent v
                       (case WsCombinedBookTickerEvent.Data ev of
                          None \<Rightarrow> WsBookTickerEvent_zero
                        | Some d \<Rightarrow> d))
               (\<lambda>x. ev\<lparr>WsCombinedBookTickerEvent.Data := Some x\<rparr>))
      else if tag = ''stream'' then
        assign (store_string tag v (WsCombinedBookTickerEvent.Stream ev))
          (\<lambda>x. ev\<lparr>WsCombinedBookTickerEvent.Stream := x\<rparr>)
      else Inr ev)"

text \<open>The handler is given \<^verbatim>\<open>event.Data\<close>, the pointer.\<close>

definition WsCombinedBookTickerServe_wsHandler ::
    "reader \<Rightarrow> string \<Rightarrow> WsBookTickerEvent option outcome" where
  "WsCombinedBookTickerServe_wsHandler scan message =
     (case json_Unmarshal scan WsCombinedBookTickerEvent_tags set_WsCombinedBookTickerEvent
             message WsCombinedBookTickerEvent_zero of
        Inl err \<Rightarrow> ErrHandler err
      | Inr event \<Rightarrow> Handler (WsCombinedBookTickerEvent.Data event))"

section \<open>Asset index (REST)\<close>

record AssetIndexResponse =
  Symbol :: string
  Time :: int
  Index :: string
  BidBuffer :: string
  AskBuffer :: string
  BidRate :: string
  AskRate :: string
  AutoExchangeBidBuffer :: string
  AutoExchangeAskBuffer :: string
  AutoExchangeBidRate :: string
  AutoExchangeAskRate :: string

record request =
  http_method :: string
  endpoint :: string

text \<open>
  \<^verbatim>\<open>callAPI\<close> belongs to the client, which is outside the files at hand: it is an argument,
  from the request to the body of the response or the error of the call. The Go function
  returns the pair \<^verbatim>\<open>(res, err)\<close>; a nil slice and a nil error are \<^const>\<open>None\<close>.
\<close>

definition AssetIndexService_Do ::
    "(request \<Rightarrow> error + string) \<Rightarrow> reader \<Rightarrow> AssetIndexResponse list option \<times> error option"
where
  "AssetIndexService_Do callAPI newJSON =
     (let r = \<lparr>http_method = ''GET'', endpoint = ''/fapi/v1/assetIndex''\<rparr>
      in case callAPI r of
           Inl err \<Rightarrow> (None, Some err)
         | Inr data \<Rightarrow>
             (case newJSON data of
                Inl err \<Rightarrow> (None, Some err)
              | Inr j \<Rightarrow>
                  (Some (map (\<lambda>i. let idx = GetIndex j i
                                   in \<lparr>AssetIndexResponse.Symbol = MustString (Get idx ''symbol''),
                                       Time = MustInt64 (Get idx ''time''),
                                       Index = MustString (Get idx ''index''),
                                       BidBuffer = MustString (Get idx ''bidBuffer''),
                                       AskBuffer = MustString (Get idx ''askBuffer''),
                                       BidRate = MustString (Get idx ''bidRate''),
                                       AskRate = MustString (Get idx ''askRate''),
                                       AutoExchangeBidBuffer =
                                         MustString (Get idx ''autoExchangeBidBuffer''),
                                       AutoExchangeAskBuffer =
                                         MustString (Get idx ''autoExchangeAskBuffer''),
                                       AutoExchangeBidRate =
                                         MustString (Get idx ''autoExchangeBidRate''),
                                       AutoExchangeAskRate =
                                         MustString (Get idx ''autoExchangeAskRate'')\<rparr>)
                             [0 ..< length (MustArray j)]),
                   None)))"

section \<open>The read loop\<close>


section \<open>A reader for message texts\<close>

text \<open>
  To run the handlers on the text of a message, a reader for JSON texts whose strings
  hold no escape sequence and no control byte, and that hold one value and white space.
  On such a text \<^verbatim>\<open>newJSON\<close> and \<^verbatim>\<open>json.Unmarshal\<close> read the same document. Any other text is
  refused here; the theorems below that hold for every reader do not depend on it.
\<close>

datatype token =
    TLBrace | TRBrace | TLBrack | TRBrack | TColon | TComma
  | TString string
  | TWord string

datatype lexmode = Outside | InString string | InWord string

datatype lexstate = LexError | Lex lexmode "token list"

definition is_space :: "char \<Rightarrow> bool" where
  "is_space c = (c = CHR '' '' \<or> c = CHR 0x09 \<or> c = CHR 0x0A \<or> c = CHR 0x0D)"

definition is_digit :: "char \<Rightarrow> bool" where
  "is_digit c = (let n = (of_char c :: nat) in 48 \<le> n \<and> n \<le> 57)"

definition is_word_char :: "char \<Rightarrow> bool" where
  "is_word_char c =
     (let n = (of_char c :: nat)
      in (48 \<le> n \<and> n \<le> 57) \<or> (97 \<le> n \<and> n \<le> 122) \<or> n = 69
         \<or> c = CHR ''+'' \<or> c = CHR ''-'' \<or> c = CHR ''.'')"

definition lex_outside :: "token list \<Rightarrow> char \<Rightarrow> lexstate" where
  "lex_outside out c =
     (if is_space c then Lex Outside out
      else if c = CHR ''{'' then Lex Outside (TLBrace # out)
      else if c = CHR ''}'' then Lex Outside (TRBrace # out)
      else if c = CHR ''['' then Lex Outside (TLBrack # out)
      else if c = CHR '']'' then Lex Outside (TRBrack # out)
      else if c = CHR '':'' then Lex Outside (TColon # out)
      else if c = CHR '','' then Lex Outside (TComma # out)
      else if c = CHR 0x22 then Lex (InString []) out
      else if is_word_char c then Lex (InWord [c]) out
      else LexError)"

fun lex_step :: "lexstate \<Rightarrow> char \<Rightarrow> lexstate" where
  "lex_step LexError c = LexError"
| "lex_step (Lex Outside out) c = lex_outside out c"
| "lex_step (Lex (InString acc) out) c =
     (if c = CHR 0x22 then Lex Outside (TString (rev acc) # out)
      else if c = CHR 0x5C \<or> (of_char c :: nat) < 32 then LexError
      else Lex (InString (c # acc)) out)"
| "lex_step (Lex (InWord acc) out) c =
     (if is_word_char c then Lex (InWord (c # acc)) out
      else lex_outside (TWord (rev acc) # out) c)"

definition lex :: "string \<Rightarrow> token list option" where
  "lex text =
     (case foldl lex_step (Lex Outside []) text of
        Lex Outside out \<Rightarrow> Some (rev out)
      | Lex (InWord acc) out \<Rightarrow> Some (rev (TWord (rev acc) # out))
      | _ \<Rightarrow> None)"

definition digits_value :: "string \<Rightarrow> nat" where
  "digits_value ds = foldl (\<lambda>n c. 10 * n + (of_char c - 48)) 0 ds"

definition digits :: "string \<Rightarrow> bool" where
  "digits ds = (ds \<noteq> [] \<and> list_all is_digit ds)"

definition exponent_ok :: "string \<Rightarrow> bool" where
  "exponent_ok r =
     (case r of
        [] \<Rightarrow> True
      | e # r' \<Rightarrow>
          (e = CHR ''e'' \<or> e = CHR ''E'') \<and>
          (case r' of
             [] \<Rightarrow> False
           | sg # r'' \<Rightarrow> if sg = CHR ''+'' \<or> sg = CHR ''-'' then digits r'' else digits r'))"

definition fraction_ok :: "string \<Rightarrow> bool" where
  "fraction_ok r =
     (case r of
        [] \<Rightarrow> True
      | d # r' \<Rightarrow>
          if d = CHR ''.'' then takeWhile is_digit r' \<noteq> [] \<and> exponent_ok (dropWhile is_digit r')
          else exponent_ok r)"

definition number_of_word :: "string \<Rightarrow> json option" where
  "number_of_word w =
     (let neg = (w \<noteq> [] \<and> hd w = CHR ''-'');
          body = (if neg then tl w else w);
          ip = takeWhile is_digit body;
          rest = dropWhile is_digit body
      in if \<not> digits ip \<or> (length ip > 1 \<and> hd ip = CHR ''0'') then None
         else if rest = [] then
           Some (JInt (if neg then - int (digits_value ip) else int (digits_value ip)))
         else if fraction_ok rest then Some (JReal w)
         else None)"

definition value_of_word :: "string \<Rightarrow> json option" where
  "value_of_word w =
     (if w = ''true'' then Some (JBool True)
      else if w = ''false'' then Some (JBool False)
      else if w = ''null'' then Some JNull
      else number_of_word w)"

datatype frame =
    FArray "json list"
  | FObject "(string \<times> json) list"
  | FMember "(string \<times> json) list" string

datatype expect =
    ExpValue | ExpValueOrClose | ExpCommaOrClose | ExpKey | ExpKeyOrClose | ExpColon

datatype pstate = PError | PRun "frame list" expect | PDone json

definition push_value :: "json \<Rightarrow> frame list \<Rightarrow> pstate" where
  "push_value v st =
     (case st of
        [] \<Rightarrow> PDone v
      | FArray xs # st' \<Rightarrow> PRun (FArray (v # xs) # st') ExpCommaOrClose
      | FMember kvs k # st' \<Rightarrow> PRun (FObject ((k, v) # kvs) # st') ExpCommaOrClose
      | FObject kvs # st' \<Rightarrow> PError)"

definition wants_value :: "expect \<Rightarrow> bool" where
  "wants_value ex = (ex = ExpValue \<or> ex = ExpValueOrClose)"

definition parse_token :: "frame list \<Rightarrow> expect \<Rightarrow> token \<Rightarrow> pstate" where
  "parse_token st ex t =
     (case t of
        TLBrace \<Rightarrow> if wants_value ex then PRun (FObject [] # st) ExpKeyOrClose else PError
      | TLBrack \<Rightarrow> if wants_value ex then PRun (FArray [] # st) ExpValueOrClose else PError
      | TRBrace \<Rightarrow>
          (case st of
             FObject kvs # st' \<Rightarrow>
               if ex = ExpKeyOrClose \<or> ex = ExpCommaOrClose
               then push_value (JObject (rev kvs)) st' else PError
           | _ \<Rightarrow> PError)
      | TRBrack \<Rightarrow>
          (case st of
             FArray xs # st' \<Rightarrow>
               if ex = ExpValueOrClose \<or> ex = ExpCommaOrClose
               then push_value (JArray (rev xs)) st' else PError
           | _ \<Rightarrow> PError)
      | TColon \<Rightarrow> if ex = ExpColon then PRun st ExpValue else PError
      | TComma \<Rightarrow>
          if ex = ExpCommaOrClose then
            (case st of
               FArray xs # st' \<Rightarrow> PRun st ExpValue
             | FObject kvs # st' \<Rightarrow> PRun st ExpKey
             | _ \<Rightarrow> PError)
          else PError
      | TString x \<Rightarrow>
          if ex = ExpKey \<or> ex = ExpKeyOrClose then
            (case st of
               FObject kvs # st' \<Rightarrow> PRun (FMember kvs x # st') ExpColon
             | _ \<Rightarrow> PError)
          else if wants_value ex then push_value (JString x) st
          else PError
      | TWord w \<Rightarrow>
          if wants_value ex then
            (case value_of_word w of None \<Rightarrow> PError | Some v \<Rightarrow> push_value v st)
          else PError)"

fun parse_step :: "pstate \<Rightarrow> token \<Rightarrow> pstate" where
  "parse_step (PRun st ex) t = parse_token st ex t"
| "parse_step _ t = PError"

definition ReadJSON :: reader where
  "ReadJSON text =
     (case lex text of
        None \<Rightarrow> Inl SyntaxError
      | Some toks \<Rightarrow>
          (case foldl parse_step (PRun [] ExpValue) toks of
             PDone v \<Rightarrow> Inr v
           | _ \<Rightarrow> Inl SyntaxError))"

section \<open>Properties of the URL builders\<close>

lemma foldl_append_descriptors:
  "foldl (\<lambda>endpoint d. endpoint @ d @ sep) base ds = base @ concat (map (\<lambda>d. d @ sep) ds)"
  by (induction ds arbitrary: base) simp_all

lemma concat_descriptors_Join:
  "ds \<noteq> [] \<Longrightarrow> concat (map (\<lambda>d. d @ sep) ds) = Join ds sep @ sep"
  by (induction ds sep rule: Join.induct) simp_all

lemma combined_endpoint_Join:
  assumes "ds \<noteq> []"
  shows "combined_endpoint base ds = base @ Join ds ''/''"
proof -
  have "foldl (\<lambda>endpoint d. endpoint @ d @ ''/'') base ds = (base @ Join ds ''/'') @ ''/''"
    using assms by (simp add: foldl_append_descriptors concat_descriptors_Join)
  then show ?thesis
    unfolding combined_endpoint_def by (simp only: butlast_snoc)
qed







lemma single_endpoints_follow_flag:
  "prefix (getWsEndpoint t) (WsPartialDepthServe_endpoint t symbol levels)"
  "prefix (getWsEndpoint t) (WsPartialDepthServe100Ms_endpoint t symbol levels)"
  "prefix (getWsEndpoint t) (WsDepthServe_endpoint t symbol)"
  "prefix (getWsEndpoint t) (WsDepthServe100Ms_endpoint t symbol)"
  "prefix (getWsEndpoint t) (WsKlineServe_endpoint t symbol interval)"
  "prefix (getWsEndpoint t) (WsAggTradeServe_endpoint t symbol)"
  "prefix (getWsEndpoint t) (WsTradeServe_endpoint t symbol)"
  "prefix (getWsEndpoint t) (WsMarketStatServe_endpoint t symbol)"
  "prefix (getWsEndpoint t) (WsBookTickerServe_endpoint t symbol)"
  by (simp_all add: WsPartialDepthServe_endpoint_def WsPartialDepthServe100Ms_endpoint_def
        WsDepthServe_endpoint_def WsDepthServe100Ms_endpoint_def WsKlineServe_endpoint_def
        WsAggTradeServe_endpoint_def WsTradeServe_endpoint_def WsMarketStatServe_endpoint_def
        WsBookTickerServe_endpoint_def)

lemma combined_endpoints_follow_flag:
  assumes "symbols \<noteq> []" and "pairs \<noteq> []"
  shows "prefix (getCombinedEndpoint t) (WsCombinedPartialDepthServe_endpoint t pairs)"
    and "prefix (getCombinedEndpoint t) (WsCombinedDepthServe_endpoint t symbols)"
    and "prefix (getCombinedEndpoint t) (WsCombinedDepthServe100Ms_endpoint t symbols)"
    and "prefix (getCombinedEndpoint t) (WsCombinedKlineServe_endpoint t pairs)"
    and "prefix (getCombinedEndpoint t) (WsCombinedAggTradeServe_endpoint t symbols)"
    and "prefix (getCombinedEndpoint t) (WsCombinedTradeServe_endpoint t symbols)"
    and "prefix (getCombinedEndpoint t) (WsCombinedMarketStatServe_endpoint t symbols)"
  using assms
  by (simp_all add: WsCombinedPartialDepthServe_endpoint_def WsCombinedDepthServe_endpoint_def
        WsCombinedDepthServe100Ms_endpoint_def WsCombinedKlineServe_endpoint_def
        WsCombinedAggTradeServe_endpoint_def WsCombinedTradeServe_endpoint_def
        WsCombinedMarketStatServe_endpoint_def combined_endpoint_Join)

text \<open>
  C3. With the flag set, \<^verbatim>\<open>WsCombinedBookTickerServe\<close> still builds a URL of the production
  endpoint: for the symbols \<open>["BTCUSDT"]\<close> the URL is
  \<open>wss://fstream.binance.com/stream?streams=btcusdt@bookTicker\<close>, which does not start with
  the test-network base. Every other builder starts with the base the flag selects (the
  two lemmas above).
\<close>

theorem WsCombinedBookTickerServe_endpoint_testnet:
  "WsCombinedBookTickerServe_endpoint True [''BTCUSDT'']
     = ''wss://fstream.binance.com/stream?streams=btcusdt@bookTicker''
   \<and> \<not> prefix (getCombinedEndpoint True) (WsCombinedBookTickerServe_endpoint True [''BTCUSDT''])
   \<and> prefix (getCombinedEndpoint False) (WsCombinedBookTickerServe_endpoint True [''BTCUSDT''])"
  by (simp add: WsCombinedBookTickerServe_endpoint_def combined_endpoint_def
        getCombinedEndpoint_def baseCombinedMainURL_def baseCombinedTestnetURL_def
        ToLower_def lowerByte_def upper_letters_def lower_letters_def)

section \<open>Properties of the decoders\<close>

lemmas reader_defs =
  ReadJSON_def lex_def lex_outside_def is_space_def is_word_char_def is_digit_def
  parse_token_def push_value_def wants_value_def value_of_word_def number_of_word_def
  digits_def digits_value_def fraction_ok_def exponent_ok_def

lemmas accessor_defs =
  Get_def GetIndex_def MustArray_def MustMap_def MustString_def MustInt64_def
  map_index_def map_get_def int64_min_def int64_max_def in_int64_def


lemmas unmarshal_defs =
  json_Unmarshal_def unmarshal_struct_def find_field_def equalFold_def
  store_string_def store_int64_def store_bool_def assign_def to_outcome_def
  in_int64_def int64_min_def int64_max_def













lemma must_levels_JArray:
  "must_levels (JArray xs) =
     map (\<lambda>item. \<lparr>PriceLevel.Price = MustString (GetIndex item 0),
                    Quantity = MustString (GetIndex item 1)\<rparr>) xs"
  by (auto intro!: nth_equalityI simp: must_levels_def MustArray_def GetIndex_def Let_def)

lemma must_levels_JNull: "must_levels JNull = []"
  by (simp add: must_levels_def MustArray_def)

lemma wsDepthServe_Handler:
  assumes "newJSON message = Inr j"
  shows "wsDepthServe_wsHandler newJSON message =
     Handler \<lparr>WsDepthEvent.Event = MustString (Get j ''e''),
              Time = MustInt64 (Get j ''E''),
              Symbol = MustString (Get j ''s''),
              LastUpdateID = MustInt64 (Get j ''u''),
              FirstUpdateID = MustInt64 (Get j ''U''),
              LastUpdateIDInLastStream = MustInt64 (Get j ''pu''),
              Bids = must_levels (Get j ''b''),
              Asks = must_levels (Get j ''a'')\<rparr>"
  using assms by (simp add: wsDepthServe_wsHandler_def)

lemma MustInt64_Get_absent:
  "map_index (Some m) key = None \<Longrightarrow> MustInt64 (Get (JObject m) key) = 0"
  by (simp add: MustInt64_def Get_def)

lemma MustInt64_Get_JInt:
  "map_index (Some m) key = Some (JInt n) \<Longrightarrow> in_int64 n \<Longrightarrow>
   MustInt64 (Get (JObject m) key) = n"
  by (simp add: MustInt64_def Get_def in_int64_def)

lemma wsCombinedDepth_pu:
  assumes "newJSON message = Inr j"
    and "wsCombinedDepthServe_wsHandler newJSON message = Handler ev"
  shows "(map_index (MustMap (Get j ''data'')) ''pu'' = None
            \<longrightarrow> LastUpdateIDInLastStream ev = 0)
       \<and> (\<forall>n. map_index (MustMap (Get j ''data'')) ''pu'' = Some (JInt n) \<longrightarrow> in_int64 n
            \<longrightarrow> LastUpdateIDInLastStream ev = n)"
  using assms
  by (auto simp: wsCombinedDepthServe_wsHandler_def outcome_of_def Let_def assert_Number_def
        in_int64_def
      split: option.splits Option.bind_splits)

text \<open>
  C5 (as amended). When a depth message has no \<open>pu\<close> member, the decoded
  LastUpdateIDInLastStream is 0, the zero value of the \<open>int64\<close> field; that is also what a
  member \<open>"pu":0\<close> gives, so the event does not tell the two apart. When \<open>pu\<close> is there with
  an integer in the range of \<open>int64\<close>, that integer is the value of the field. This holds
  for the flat decoder, which hands over an event for every document, and for the
  combined decoder whenever it hands over an event.
\<close>

theorem depth_previous_update_id:
  assumes "newJSON message = Inr (JObject m)"
  shows
    "(\<exists>ev. wsDepthServe_wsHandler newJSON message = Handler ev
         \<and> (map_index (Some m) ''pu'' = None \<longrightarrow> LastUpdateIDInLastStream ev = 0)
         \<and> (\<forall>n. map_index (Some m) ''pu'' = Some (JInt n) \<longrightarrow> in_int64 n
               \<longrightarrow> LastUpdateIDInLastStream ev = n))
   \<and> (\<forall>ev. wsCombinedDepthServe_wsHandler newJSON message = Handler ev \<longrightarrow>
         (map_index (MustMap (Get (JObject m) ''data'')) ''pu'' = None
            \<longrightarrow> LastUpdateIDInLastStream ev = 0)
       \<and> (\<forall>n. map_index (MustMap (Get (JObject m) ''data'')) ''pu'' = Some (JInt n)
               \<longrightarrow> in_int64 n \<longrightarrow> LastUpdateIDInLastStream ev = n))"
proof (intro conjI)
  show "\<exists>ev. wsDepthServe_wsHandler newJSON message = Handler ev
         \<and> (map_index (Some m) ''pu'' = None \<longrightarrow> LastUpdateIDInLastStream ev = 0)
         \<and> (\<forall>n. map_index (Some m) ''pu'' = Some (JInt n) \<longrightarrow> in_int64 n
               \<longrightarrow> LastUpdateIDInLastStream ev = n)"
    by (simp add: wsDepthServe_Handler [of newJSON message "JObject m", OF assms]
          MustInt64_Get_absent MustInt64_Get_JInt)
next
  show "\<forall>ev. wsCombinedDepthServe_wsHandler newJSON message = Handler ev \<longrightarrow>
         (map_index (MustMap (Get (JObject m) ''data'')) ''pu'' = None
            \<longrightarrow> LastUpdateIDInLastStream ev = 0)
       \<and> (\<forall>n. map_index (MustMap (Get (JObject m) ''data'')) ''pu'' = Some (JInt n)
               \<longrightarrow> in_int64 n \<longrightarrow> LastUpdateIDInLastStream ev = n)"
    using wsCombinedDepth_pu [of newJSON message "JObject m", OF assms] by blast
qed

lemma read_depth_without_pu:
  \<open>ReadJSON ''{"e":"depthUpdate","U":157,"u":160,"b":[],"a":[]}''
     = Inr (JObject [(''e'', JString ''depthUpdate''), (''U'', JInt 157), (''u'', JInt 160),
                     (''b'', JArray []), (''a'', JArray [])])\<close>
  by (simp add: reader_defs)

lemma read_depth_with_pu_zero:
  \<open>ReadJSON ''{"e":"depthUpdate","U":157,"u":160,"pu":0,"b":[],"a":[]}''
     = Inr (JObject [(''e'', JString ''depthUpdate''), (''U'', JInt 157), (''u'', JInt 160),
                     (''pu'', JInt 0), (''b'', JArray []), (''a'', JArray [])])\<close>
  by (simp add: reader_defs)

lemma read_depth_with_pu:
  \<open>ReadJSON ''{"e":"depthUpdate","U":157,"u":160,"pu":149,"b":[],"a":[]}''
     = Inr (JObject [(''e'', JString ''depthUpdate''), (''U'', JInt 157), (''u'', JInt 160),
                     (''pu'', JInt 149), (''b'', JArray []), (''a'', JArray [])])\<close>
  by (simp add: reader_defs)

theorem depth_previous_update_id_witness:
  \<open>(\<exists>ev. wsDepthServe_wsHandler ReadJSON
            ''{"e":"depthUpdate","U":157,"u":160,"b":[],"a":[]}'' = Handler ev
        \<and> LastUpdateIDInLastStream ev = 0)
   \<and> (\<exists>ev. wsDepthServe_wsHandler ReadJSON
            ''{"e":"depthUpdate","U":157,"u":160,"pu":149,"b":[],"a":[]}'' = Handler ev
        \<and> LastUpdateIDInLastStream ev = 149)\<close>
proof -
  have a: "map_index (Some [(''e'', JString ''depthUpdate''), (''U'', JInt 157),
              (''u'', JInt 160), (''b'', JArray []), (''a'', JArray [])]) ''pu'' = None"
    by (simp add: map_index_def)
  have b: "map_index (Some [(''e'', JString ''depthUpdate''), (''U'', JInt 157),
              (''u'', JInt 160), (''pu'', JInt 149), (''b'', JArray []), (''a'', JArray [])])
              ''pu'' = Some (JInt 149)"
    by (simp add: map_index_def)
  have c: "in_int64 149"
    by (simp add: in_int64_def int64_min_def int64_max_def)
  show ?thesis
    using depth_previous_update_id [of ReadJSON _ _, OF read_depth_without_pu, THEN conjunct1]
      depth_previous_update_id [of ReadJSON _ _, OF read_depth_with_pu, THEN conjunct1]
      a b c
    by blast
qed

theorem depth_pu_zero_counterexample:
  \<open>wsDepthServe_wsHandler ReadJSON ''{"e":"depthUpdate","U":157,"u":160,"b":[],"a":[]}''
     = wsDepthServe_wsHandler ReadJSON
         ''{"e":"depthUpdate","U":157,"u":160,"pu":0,"b":[],"a":[]}''\<close>
  unfolding wsDepthServe_Handler [of ReadJSON, OF read_depth_without_pu]
    wsDepthServe_Handler [of ReadJSON, OF read_depth_with_pu_zero]
  by (simp add: accessor_defs must_levels_JArray)
























lemma read_truncated: \<open>ReadJSON ''{"lastUpdateId":160'' = Inl SyntaxError\<close>
  by (simp add: reader_defs)




text \<open>
  C2. The combined depth decoder panics on the valid-JSON envelope
  \<open>{"stream":"btcusdt@depth","data":{}}\<close>: \<open>data["e"]\<close> is the nil interface and the
  assertion \<open>.(string)\<close> on it is unchecked. The combined partial-depth decoder panics on
  an envelope whose \<open>bids\<close> is a string. Neither handler is called.
\<close>

theorem combined_depth_decoders_panic:
  \<open>wsCombinedDepthServe_wsHandler ReadJSON ''{"stream":"btcusdt@depth","data":{}}'' = Panic
   \<and> WsCombinedPartialDepthServe_wsHandler ReadJSON
       ''{"stream":"btcusdt@depth5","data":{"lastUpdateId":160,"bids":"none","asks":[]}}''
     = Panic\<close>
proof -
  have r1: \<open>ReadJSON ''{"stream":"btcusdt@depth","data":{}}''
      = Inr (JObject [(''stream'', JString ''btcusdt@depth''), (''data'', JObject [])])\<close>
    by (simp add: reader_defs)
  have r2: \<open>ReadJSON ''{"stream":"btcusdt@depth5","data":{"lastUpdateId":160,"bids":"none","asks":[]}}''
      = Inr (JObject [(''stream'', JString ''btcusdt@depth5''),
                      (''data'', JObject [(''lastUpdateId'', JInt 160),
                                          (''bids'', JString ''none''),
                                          (''asks'', JArray [])])])\<close>
    by (simp add: reader_defs)
  have p1: \<open>wsCombinedDepthServe_wsHandler ReadJSON ''{"stream":"btcusdt@depth","data":{}}'' = Panic\<close>
    by (simp add: wsCombinedDepthServe_wsHandler_def r1 accessor_defs outcome_of_def
          assert_string_def)
  have p2: \<open>WsCombinedPartialDepthServe_wsHandler ReadJSON
       ''{"stream":"btcusdt@depth5","data":{"lastUpdateId":160,"bids":"none","asks":[]}}''
     = Panic\<close>
    by (simp add: WsCombinedPartialDepthServe_wsHandler_def r2 accessor_defs outcome_of_def
          assert_Number_def assert_slice_def)
  show ?thesis
    using p1 p2 by (rule conjI)
qed

text \<open>
  C8. Given the flat-mode message
  \<open>{"e":"trade","E":123456789,"s":"BNBBTC","t":12345,"p":"0.001","q":"100","b":88,"a":50,
  "T":123456785,"m":true,"M":true}\<close>, the trade decoder calls the handler with the event
  Event = trade, Symbol = BNBBTC, TradeID = 12345, Price = 0.001, Quantity = 100,
  IsBuyerMaker = true. The member \<open>M\<close> is stored in the field Placeholder and the member
  \<open>m\<close> in IsBuyerMaker, each whatever the other holds.
\<close>

theorem trade_message_decoded:
  assumes "scan message =
      Inr (JObject
        [(''e'', JString ''trade''), (''E'', JInt 123456789), (''s'', JString ''BNBBTC''),
         (''t'', JInt 12345), (''p'', JString ''0.001''), (''q'', JString ''100''),
         (''b'', JInt 88), (''a'', JInt 50), (''T'', JInt 123456785),
         (''m'', JBool bm), (''M'', JBool bM)])"
  shows "WsTradeServe_wsHandler scan message =
      Handler \<lparr>WsTradeEvent.Event = ''trade'', Time = 123456789, Symbol = ''BNBBTC'',
               TradeID = 12345, Price = ''0.001'', Quantity = ''100'', BuyerOrderID = 88,
               SellerOrderID = 50, TradeTime = 123456785, IsBuyerMaker = bm,
               Placeholder = bM\<rparr>"
  unfolding WsTradeServe_wsHandler_def json_Unmarshal_def assms
  by (simp add: unmarshal_defs WsTradeEvent_tags_def set_WsTradeEvent_def WsTradeEvent_zero_def)

lemma read_trade_message:
  \<open>ReadJSON ''{"e":"trade","E":123456789,"s":"BNBBTC","t":12345,"p":"0.001","q":"100","b":88,"a":50,"T":123456785,"m":true,"M":true}''
     = Inr (JObject
        [(''e'', JString ''trade''), (''E'', JInt 123456789), (''s'', JString ''BNBBTC''),
         (''t'', JInt 12345), (''p'', JString ''0.001''), (''q'', JString ''100''),
         (''b'', JInt 88), (''a'', JInt 50), (''T'', JInt 123456785),
         (''m'', JBool True), (''M'', JBool True)])\<close>
  by (simp add: reader_defs)

theorem trade_message_decoded_witness:
  \<open>WsTradeServe_wsHandler ReadJSON
       ''{"e":"trade","E":123456789,"s":"BNBBTC","t":12345,"p":"0.001","q":"100","b":88,"a":50,"T":123456785,"m":true,"M":true}''
     = Handler \<lparr>WsTradeEvent.Event = ''trade'', Time = 123456789, Symbol = ''BNBBTC'',
                TradeID = 12345, Price = ''0.001'', Quantity = ''100'', BuyerOrderID = 88,
                SellerOrderID = 50, TradeTime = 123456785, IsBuyerMaker = True,
                Placeholder = True\<rparr>\<close>
  by (rule trade_message_decoded [of ReadJSON, OF read_trade_message])

text \<open>
  C10. An envelope that is an object with a \<open>stream\<close> member and no \<open>data\<close> member is
  decoded without error by the combined book-ticker subscription: the error handler is not
  called, and the success handler is called with the nil pointer.
\<close>

theorem combined_book_ticker_without_data:
  assumes "scan message = Inr (JObject [(''stream'', JString st)])"
  shows "WsCombinedBookTickerServe_wsHandler scan message = Handler None"
  unfolding WsCombinedBookTickerServe_wsHandler_def json_Unmarshal_def assms
  by (simp add: unmarshal_defs WsCombinedBookTickerEvent_tags_def
        set_WsCombinedBookTickerEvent_def WsCombinedBookTickerEvent_zero_def)

lemma read_book_ticker_envelope:
  \<open>ReadJSON ''{"stream":"btcusdt@bookTicker"}''
     = Inr (JObject [(''stream'', JString ''btcusdt@bookTicker'')])\<close>
  by (simp add: reader_defs)

theorem combined_book_ticker_without_data_witness:
  \<open>WsCombinedBookTickerServe_wsHandler ReadJSON ''{"stream":"btcusdt@bookTicker"}''
     = Handler None\<close>
  by (rule combined_book_ticker_without_data [of ReadJSON, OF read_book_ticker_envelope])

section \<open>Properties of the asset index call\<close>

text \<open>
  C9. \<^verbatim>\<open>AssetIndexService.Do\<close> sends a GET request to \<open>/fapi/v1/assetIndex\<close>. When the call
  fails, or the body is refused by the reader, it returns the nil slice and the error.
  When the body is a JSON array it returns, with a nil error, one record per element of
  the array, in the order of the array, the fields of each record read from the keys
  symbol, time, index, bidBuffer, askBuffer, bidRate, askRate and their autoExchange
  counterparts of that element.
\<close>

theorem AssetIndexService_Do_result:
  "(callAPI \<lparr>http_method = ''GET'', endpoint = ''/fapi/v1/assetIndex''\<rparr> = Inl err \<longrightarrow>
      AssetIndexService_Do callAPI newJSON = (None, Some err))
   \<and> (callAPI \<lparr>http_method = ''GET'', endpoint = ''/fapi/v1/assetIndex''\<rparr> = Inr data \<longrightarrow>
      newJSON data = Inl err \<longrightarrow>
      AssetIndexService_Do callAPI newJSON = (None, Some err))
   \<and> (callAPI \<lparr>http_method = ''GET'', endpoint = ''/fapi/v1/assetIndex''\<rparr> = Inr data \<longrightarrow>
      newJSON data = Inr (JArray elems) \<longrightarrow>
      AssetIndexService_Do callAPI newJSON =
        (Some (map (\<lambda>idx. \<lparr>AssetIndexResponse.Symbol = MustString (Get idx ''symbol''),
                   Time = MustInt64 (Get idx ''time''),
                   Index = MustString (Get idx ''index''),
                   BidBuffer = MustString (Get idx ''bidBuffer''),
                   AskBuffer = MustString (Get idx ''askBuffer''),
                   BidRate = MustString (Get idx ''bidRate''),
                   AskRate = MustString (Get idx ''askRate''),
                   AutoExchangeBidBuffer = MustString (Get idx ''autoExchangeBidBuffer''),
                   AutoExchangeAskBuffer = MustString (Get idx ''autoExchangeAskBuffer''),
                   AutoExchangeBidRate = MustString (Get idx ''autoExchangeBidRate''),
                   AutoExchangeAskRate = MustString (Get idx ''autoExchangeAskRate'')\<rparr>) elems),
         None))"
  by (auto simp: AssetIndexService_Do_def Let_def MustArray_def GetIndex_def
      intro!: nth_equalityI)

lemma read_asset_index:
  \<open>ReadJSON ''[{"symbol":"ADAUSD","time":1635740268004,"index":"1.92"},{"symbol":"USDTUSD","askRate":"1.0"}]''
     = Inr (JArray
         [JObject [(''symbol'', JString ''ADAUSD''), (''time'', JInt 1635740268004),
                   (''index'', JString ''1.92'')],
          JObject [(''symbol'', JString ''USDTUSD''), (''askRate'', JString ''1.0'')]])\<close>
  by (simp add: reader_defs)

theorem AssetIndexService_Do_result_witness:
  \<open>AssetIndexService_Do
      (\<lambda>r. if r = \<lparr>http_method = ''GET'', endpoint = ''/fapi/v1/assetIndex''\<rparr>
           then Inr ''[{"symbol":"ADAUSD","time":1635740268004,"index":"1.92"},{"symbol":"USDTUSD","askRate":"1.0"}]''
           else Inl (RequestError ''404''))
      ReadJSON
     = (Some [\<lparr>AssetIndexResponse.Symbol = ''ADAUSD'', Time = 1635740268004,
               Index = ''1.92'', BidBuffer = [], AskBuffer = [], BidRate = [], AskRate = [],
               AutoExchangeBidBuffer = [], AutoExchangeAskBuffer = [],
               AutoExchangeBidRate = [], AutoExchangeAskRate = []\<rparr>,
              \<lparr>AssetIndexResponse.Symbol = ''USDTUSD'', Time = 0,
               Index = [], BidBuffer = [], AskBuffer = [], BidRate = [], AskRate = ''1.0'',
               AutoExchangeBidBuffer = [], AutoExchangeAskBuffer = [],
               AutoExchangeBidRate = [], AutoExchangeAskRate = []\<rparr>],
        None)
   \<and> AssetIndexService_Do (\<lambda>r. Inl (RequestError ''timeout'')) ReadJSON
     = (None, Some (RequestError ''timeout''))
   \<and> AssetIndexService_Do (\<lambda>r. Inr ''{"lastUpdateId":160'') ReadJSON
     = (None, Some SyntaxError)\<close>
proof -
  let ?body = \<open>''[{"symbol":"ADAUSD","time":1635740268004,"index":"1.92"},{"symbol":"USDTUSD","askRate":"1.0"}]''\<close>
  let ?call = "\<lambda>r. if r = \<lparr>http_method = ''GET'', endpoint = ''/fapi/v1/assetIndex''\<rparr>
           then Inr ?body else Inl (RequestError ''404'')"
  have c: "?call \<lparr>http_method = ''GET'', endpoint = ''/fapi/v1/assetIndex''\<rparr> = Inr ?body"
    by simp
  note ok = AssetIndexService_Do_result
    [where callAPI = ?call and newJSON = ReadJSON,
      THEN conjunct2, THEN conjunct2, THEN mp, OF c, THEN mp, OF read_asset_index]
  have c2: "(\<lambda>r::request. Inl (RequestError ''timeout'') :: error + string)
        \<lparr>http_method = ''GET'', endpoint = ''/fapi/v1/assetIndex''\<rparr> = Inl (RequestError ''timeout'')"
    by simp
  note failed = AssetIndexService_Do_result
    [where callAPI = "\<lambda>r. Inl (RequestError ''timeout'')" and newJSON = ReadJSON,
      THEN conjunct1, THEN mp, OF c2]
  have c3: \<open>(\<lambda>r::request. Inr ''{"lastUpdateId":160'' :: error + string)
        \<lparr>http_method = ''GET'', endpoint = ''/fapi/v1/assetIndex''\<rparr> = Inr ''{"lastUpdateId":160''\<close>
    by simp
  note refused = AssetIndexService_Do_result
    [where callAPI = \<open>\<lambda>r. Inr ''{"lastUpdateId":160''\<close> and newJSON = ReadJSON,
      THEN conjunct2, THEN conjunct1, THEN mp, OF c3, THEN mp, OF read_truncated]
  show ?thesis
    unfolding ok failed refused by (simp add: accessor_defs)
qed

end
